theory Spec2Isabelle
  imports Main "HOL-Library.Sublist"
begin

section \<open>Values, strings and exceptions of the host language\<close>

text \<open>
  Attribute values as the plugin (Filtra_Selecionados_V3.py) tests them: \<open>None\<close>
  (\<open>feat[...] is None\<close>), strings (\<open>isinstance(valor, str)\<close>) and integers.
  A character is a code point below 256 (ASCII and the Latin-1 supplement), and a
  string is a list of them.
\<close>

datatype pyval = PyNone | PyInt int | PyStr string

text \<open>The exceptions the calls in the source can raise.\<close>

datatype exc =
    KeyError
  | TypeError
  | IndexError
  | AssertionError
  | SqlError string

text \<open>
  \<open>str.strip()\<close> removes the characters for which \<open>str.isspace()\<close> holds: below 256
  these are U+0009 to U+000D, U+001C to U+0020, U+0085 and U+00A0. \<open>str.lower()\<close>
  maps A to Z and the upper-case letters U+00C0 to U+00DE (U+00D7, the multiplication
  sign, is not one) to the letter 32 code points above, and nothing else.
\<close>

definition py_isspace :: "char \<Rightarrow> bool" where
  "py_isspace ch = (of_char ch \<in> {9, 10, 11, 12, 13, 28, 29, 30, 31, 32, 133, 160 :: nat})"

definition py_strip :: "string \<Rightarrow> string" where
  "py_strip s = rev (dropWhile py_isspace (rev (dropWhile py_isspace s)))"

definition lower_char :: "char \<Rightarrow> char" where
  "lower_char ch =
     (let k = (of_char ch :: nat)
      in if (65 \<le> k \<and> k \<le> 90) \<or> (192 \<le> k \<and> k \<le> 222 \<and> k \<noteq> 215)
         then char_of (k + 32) else ch)"

definition py_lower :: "string \<Rightarrow> string" where
  "py_lower s = map lower_char s"

text \<open>\<open>needle in haystack\<close> on strings: the substring test.\<close>

fun py_in :: "string \<Rightarrow> string \<Rightarrow> bool" where
  "py_in needle [] = (needle = [])"
| "py_in needle (h # hs) = (prefix needle (h # hs) \<or> py_in needle hs)"

text \<open>Truth value of a Python object (\<open>if pk\<close>, \<open>if not campo\<close>).\<close>

fun truthy :: "pyval \<Rightarrow> bool" where
  "truthy PyNone = False"
| "truthy (PyInt n) = (n \<noteq> 0)"
| "truthy (PyStr s) = (s \<noteq> [])"

text \<open>\<open>str(v)\<close>: decimal digits for integers, the text itself for strings.\<close>

definition digit_char :: "nat \<Rightarrow> char" where
  "digit_char d = char_of (48 + d)"

function str_nat :: "nat \<Rightarrow> string" where
  "str_nat n = (if n < 10 then [digit_char n] else str_nat (n div 10) @ [digit_char (n mod 10)])"
  by pat_completeness auto
termination
  by (relation "measure id") auto

declare str_nat.simps [simp del]

definition str_int :: "int \<Rightarrow> string" where
  "str_int i = (if i < 0 then CHR ''-'' # str_nat (nat (- i)) else str_nat (nat i))"

fun py_str :: "pyval \<Rightarrow> string" where
  "py_str PyNone = ''None''"
| "py_str (PyInt i) = str_int i"
| "py_str (PyStr s) = s"

text \<open>\<open>sep.join(xs)\<close>.\<close>

fun py_join :: "string \<Rightarrow> string list \<Rightarrow> string" where
  "py_join sep [] = []"
| "py_join sep [x] = x"
| "py_join sep (x # y # ys) = x @ sep @ py_join sep (y # ys)"

text \<open>\<open>xs[i]\<close> for a non-negative index.\<close>

definition py_index :: "'a list \<Rightarrow> nat \<Rightarrow> exc + 'a" where
  "py_index xs i = (if i < length xs then Inr (xs ! i) else Inl IndexError)"

section \<open>The vector layer as the plugin reads and writes it\<close>

datatype qtype =
    QVariantInt
  | QVariantLongLong
  | QVariantDouble
  | QVariantString
  | QVariantChar
  | QVariantOther

record QgsField =
  fname :: string
  ftype :: qtype

record QgsFeature =
  fid :: int
  attributes :: "pyval list"

text \<open>What the data provider answers to \<open>executeSql\<close>: it raises, or it returns rows.\<close>

datatype resposta_sql = SqlFalha string | SqlLinhas "pyval list list"

text \<open>
  The layer object. \<open>lfields\<close> is the schema \<open>fields()\<close>; \<open>getFeatures\<close> are
  the records \<open>getFeatures()\<close> yields, in iteration order, and \<open>featureCount\<close> is
  their number; \<open>cap_AddAttributes\<close> is the \<open>AddAttributes\<close> bit of the provider's
  capabilities; \<open>executeSql\<close> is the provider's answer to the catalog query and
  \<open>startEditing\<close> its answer when an edit session is opened.
\<close>

record camada =
  layer_name :: string
  provider_name :: string
  source :: string
  isTemporary :: bool
  cap_AddAttributes :: bool
  isValid :: bool
  lfields :: "QgsField list"
  getFeatures :: "QgsFeature list"
  selectedFeatureIds :: "int list"
  subsetString :: string
  executeSql :: resposta_sql
  startEditing :: bool

definition names :: "QgsField list \<Rightarrow> string list" where
  "names campos = map fname campos"

definition featureCount :: "camada \<Rightarrow> int" where
  "featureCount c = int (length (getFeatures c))"

text \<open>
  \<open>fields().lookupField(nome)\<close>: the index of the field of that name, \<open>None\<close> for the
  source's \<open>-1\<close>. Lookup is by exact name.
\<close>

fun lookupField :: "QgsField list \<Rightarrow> string \<Rightarrow> nat option" where
  "lookupField [] nome = None"
| "lookupField (f # fs) nome =
     (if fname f = nome then Some 0 else map_option Suc (lookupField fs nome))"

text \<open>\<open>feat[indice]\<close>, \<open>feat[nome]\<close> and \<open>feat[nome] = v\<close>.\<close>

definition getitem_idx :: "QgsFeature \<Rightarrow> nat \<Rightarrow> exc + pyval" where
  "getitem_idx feat i =
     (if i < length (attributes feat) then Inr (attributes feat ! i) else Inl KeyError)"

definition getitem_nome :: "QgsField list \<Rightarrow> QgsFeature \<Rightarrow> string \<Rightarrow> exc + pyval" where
  "getitem_nome campos feat nome =
     (case lookupField campos nome of
        None \<Rightarrow> Inl KeyError
      | Some i \<Rightarrow> getitem_idx feat i)"

definition setitem_nome ::
    "QgsField list \<Rightarrow> QgsFeature \<Rightarrow> string \<Rightarrow> pyval \<Rightarrow> exc + QgsFeature" where
  "setitem_nome campos feat nome v =
     (case lookupField campos nome of
        None \<Rightarrow> Inl KeyError
      | Some i \<Rightarrow>
          if i < length (attributes feat)
          then Inr (feat\<lparr>attributes := (attributes feat)[i := v]\<rparr>)
          else Inl KeyError)"

text \<open>Every record carries one value per field of the schema.\<close>

definition wf_camada :: "camada \<Rightarrow> bool" where
  "wf_camada c = list_all (\<lambda>feat. length (attributes feat) = length (lfields c)) (getFeatures c)"

section \<open>Messages, dialogs and log entries\<close>

datatype nivel = Info | Warning | Critical | Success

datatype texto =
    SelectValidLayer
  | NoFeaturesSelected
  | FilterCancelled
  | NoUniqueField
  | FailedAuxField exc
  | Filtered string nat string
  | ErrorFiltering exc
  | ErroObterPK exc
  | ErroDetalhado exc

datatype evento =
    PushMessage texto nivel nat
  | MessageBoxWarning nat
  | LogMessage texto nivel

datatype botao = QMessageBoxYes | QMessageBoxNo

definition exibir_mensagem :: "texto \<Rightarrow> bool \<Rightarrow> bool \<Rightarrow> evento" where
  "exibir_mensagem mensagem erro sucesso =
     (let nivel = (if erro then Critical else if sucesso then Success else Info);
          duracao = (if erro then 3 else if sucesso then 3 else 4)
      in PushMessage mensagem nivel duracao)"

section \<open>Auxiliary functions\<close>

text \<open>
  \<open>campo_e_unico\<close>: the loop returns \<open>None\<close> when it leaves early with \<open>False\<close>, and
  the set of values seen when it runs to the end.
\<close>

fun normalizar :: "pyval \<Rightarrow> pyval" where
  "normalizar (PyStr s) = PyStr (py_lower (py_strip s))"
| "normalizar v = v"

fun campo_e_unico_loop :: "nat \<Rightarrow> QgsFeature list \<Rightarrow> pyval set \<Rightarrow> exc + pyval set option" where
  "campo_e_unico_loop indice [] valores = Inr (Some valores)"
| "campo_e_unico_loop indice (feat # feats) valores =
     (case getitem_idx feat indice of
        Inl e \<Rightarrow> Inl e
      | Inr v \<Rightarrow>
          (let valor = normalizar v in
           if valor \<in> valores then Inr None
           else campo_e_unico_loop indice feats (insert valor valores)))"

definition campo_e_unico :: "camada \<Rightarrow> string \<Rightarrow> exc + bool" where
  "campo_e_unico c nome_campo =
     (case lookupField (lfields c) nome_campo of
        None \<Rightarrow> Inr False
      | Some indice \<Rightarrow>
          (case campo_e_unico_loop indice (getFeatures c) {} of
             Inl e \<Rightarrow> Inl e
           | Inr None \<Rightarrow> Inr False
           | Inr (Some valores) \<Rightarrow> Inr (int (card valores) = featureCount c)))"

fun possui_valores_nulos_loop :: "QgsField list \<Rightarrow> string \<Rightarrow> QgsFeature list \<Rightarrow> exc + bool" where
  "possui_valores_nulos_loop campos nome_campo [] = Inr False"
| "possui_valores_nulos_loop campos nome_campo (feat # feats) =
     (case getitem_nome campos feat nome_campo of
        Inl e \<Rightarrow> Inl e
      | Inr v \<Rightarrow>
          if v = PyNone then Inr True
          else possui_valores_nulos_loop campos nome_campo feats)"

definition possui_valores_nulos :: "camada \<Rightarrow> string \<Rightarrow> exc + bool" where
  "possui_valores_nulos c nome_campo =
     possui_valores_nulos_loop (lfields c) nome_campo (getFeatures c)"

definition camada_editavel :: "camada \<Rightarrow> bool" where
  "camada_editavel c = cap_AddAttributes c"

datatype tipo_camada = Wfs | Database | Csv | Kml | File | Temporary | Other

definition identificar_tipo_camada :: "camada \<Rightarrow> tipo_camada" where
  "identificar_tipo_camada c =
     (let provedor = py_lower (provider_name c);
          uri = py_lower (source c)
      in if py_in ''wfs'' uri \<or> provedor = ''wfs'' then Wfs
         else if provedor \<in> set [''postgres'', ''postgresql'', ''oracle'', ''mssql'',
                                 ''mysql'', ''spatialite''] then Database
         else if provedor = ''delimitedtext'' \<or> py_in ''.csv'' uri then Csv
         else if py_in ''libkml'' provedor \<or> list_ex (\<lambda>ext. py_in ext uri) [''.kml'', ''.kmz'']
           then Kml
         else if provedor = ''ogr'' \<and> list_ex (\<lambda>ext. py_in ext uri) [''.shp'', ''.gpkg'']
           then File
         else if isTemporary c then Temporary
         else Other)"

section \<open>Primary keys of database layers\<close>

text \<open>
  \<open>obter_chave_primaria\<close>. The text of the catalog query only reaches the provider, whose
  answer is \<open>executeSql\<close>; the body of the \<open>try\<close> block is
  \<open>obter_chave_primaria_try\<close>, the \<open>except\<close> clause and the final \<open>return None\<close>
  are in \<open>obter_chave_primaria\<close>.
\<close>

fun coluna_pk_spatialite :: "pyval list list \<Rightarrow> exc + pyval" where
  "coluna_pk_spatialite [] = Inr PyNone"
| "coluna_pk_spatialite (coluna # resto) =
     (case py_index coluna 5 of
        Inl e \<Rightarrow> Inl e
      | Inr flag \<Rightarrow>
          if flag = PyInt 1 then py_index coluna 1
          else coluna_pk_spatialite resto)"

definition obter_chave_primaria_try :: "camada \<Rightarrow> exc + pyval" where
  "obter_chave_primaria_try c =
     (let provedor = py_lower (provider_name c)
      in if provedor \<in> set [''postgres'', ''postgresql''] \<or> provedor = ''mysql''
            \<or> provedor = ''mssql'' \<or> provedor = ''spatialite'' \<or> provedor = ''oracle''
         then (case executeSql c of
                 SqlFalha m \<Rightarrow> Inl (SqlError m)
               | SqlLinhas resultado \<Rightarrow>
                   if provedor = ''spatialite'' then coluna_pk_spatialite resultado
                   else if resultado \<noteq> []
                     then (case py_index resultado 0 of
                             Inl e \<Rightarrow> Inl e
                           | Inr linha \<Rightarrow> py_index linha 0)
                   else Inr PyNone)
         else Inr PyNone)"

definition obter_chave_primaria :: "camada \<Rightarrow> pyval \<times> evento list" where
  "obter_chave_primaria c =
     (case obter_chave_primaria_try c of
        Inl e \<Rightarrow> (PyNone, [LogMessage (ErroObterPK e) Warning])
      | Inr pk \<Rightarrow> (pk, []))"

section \<open>Field selection\<close>

text \<open>\<open>campo_e_unico(camada, n) and not possui_valores_nulos(camada, n)\<close>.\<close>

definition unico_e_sem_nulos :: "camada \<Rightarrow> string \<Rightarrow> exc + bool" where
  "unico_e_sem_nulos c nome_campo =
     (case campo_e_unico c nome_campo of
        Inl e \<Rightarrow> Inl e
      | Inr False \<Rightarrow> Inr False
      | Inr True \<Rightarrow>
          (case possui_valores_nulos c nome_campo of
             Inl e \<Rightarrow> Inl e
           | Inr nulos \<Rightarrow> Inr (\<not> nulos)))"

text \<open>The loop \<open>for campo in camada.fields()\<close> of the database and read-only branches.\<close>

fun varrer_campos :: "camada \<Rightarrow> QgsField list \<Rightarrow> exc + string option" where
  "varrer_campos c [] = Inr None"
| "varrer_campos c (campo # resto) =
     (case unico_e_sem_nulos c (fname campo) of
        Inl e \<Rightarrow> Inl e
      | Inr True \<Rightarrow> Inr (Some (fname campo))
      | Inr False \<Rightarrow> varrer_campos c resto)"

record grupo =
  nomes :: "string list"
  tipos :: "qtype list"

definition prioridades :: "grupo list" where
  "prioridades =
     [\<lparr>nomes = [''fid'', ''id'', ''objectid''], tipos = [QVariantInt, QVariantLongLong]\<rparr>,
      \<lparr>nomes = [''id'', ''cod'', ''co''], tipos = [QVariantInt]\<rparr>,
      \<lparr>nomes = [''id'', ''cod'', ''co'', ''nome'', ''no''], tipos = [QVariantString]\<rparr>,
      \<lparr>nomes = [], tipos = [QVariantInt]\<rparr>,
      \<lparr>nomes = [], tipos = [QVariantString]\<rparr>]"

definition tipo_valido :: "grupo \<Rightarrow> QgsField \<Rightarrow> bool" where
  "tipo_valido g campo = (ftype campo \<in> set (tipos g))"

definition nome_valido :: "grupo \<Rightarrow> QgsField \<Rightarrow> bool" where
  "nome_valido g campo =
     (let nome_campo = py_lower (fname campo)
      in nomes g = [] \<or> list_ex (\<lambda>n. py_in n nome_campo) (nomes g))"

fun varrer_grupo :: "camada \<Rightarrow> grupo \<Rightarrow> QgsField list \<Rightarrow> exc + string option" where
  "varrer_grupo c g [] = Inr None"
| "varrer_grupo c g (campo # resto) =
     (if nome_valido g campo \<and> tipo_valido g campo
      then (case unico_e_sem_nulos c (fname campo) of
              Inl e \<Rightarrow> Inl e
            | Inr True \<Rightarrow> Inr (Some (fname campo))
            | Inr False \<Rightarrow> varrer_grupo c g resto)
      else varrer_grupo c g resto)"

fun varrer_prioridades :: "camada \<Rightarrow> grupo list \<Rightarrow> exc + string option" where
  "varrer_prioridades c [] = Inr None"
| "varrer_prioridades c (g # gs) =
     (case varrer_grupo c g (lfields c) of
        Inl e \<Rightarrow> Inl e
      | Inr (Some n) \<Rightarrow> Inr (Some n)
      | Inr None \<Rightarrow> varrer_prioridades c gs)"

section \<open>The auxiliary sequential field\<close>

text \<open>
  \<open>dataProvider().addAttributes([QgsField(nome, tipo)])\<close> followed by
  \<open>updateFields()\<close>: the schema gets the field at its end and every record an empty
  value for it.
\<close>

definition addAttributes :: "camada \<Rightarrow> QgsField \<Rightarrow> camada" where
  "addAttributes c campo =
     c\<lparr>lfields := lfields c @ [campo],
       getFeatures := map (\<lambda>feat. feat\<lparr>attributes := attributes feat @ [PyNone]\<rparr>)
                        (getFeatures c)\<rparr>"

text \<open>The loop \<open>for i, feat in enumerate(camada.getFeatures())\<close>.\<close>

fun preencher :: "QgsField list \<Rightarrow> string \<Rightarrow> nat \<Rightarrow> QgsFeature list \<Rightarrow> exc + QgsFeature list" where
  "preencher campos nome_campo i [] = Inr []"
| "preencher campos nome_campo i (feat # feats) =
     (case setitem_nome campos feat nome_campo (PyInt (int i + 1)) of
        Inl e \<Rightarrow> Inl e
      | Inr feat' \<Rightarrow>
          (case preencher campos nome_campo (Suc i) feats of
             Inl e \<Rightarrow> Inl e
           | Inr feats' \<Rightarrow> Inr (feat' # feats')))"

text \<open>
  The block \<open>with edit(camada)\<close>: opening the session asserts \<open>startEditing()\<close>; an
  exception inside the block rolls the record updates back (the attribute added through
  the provider stays) and is raised again.
\<close>

definition edit_id_row_nr :: "camada \<Rightarrow> string \<Rightarrow> (exc + unit) \<times> camada" where
  "edit_id_row_nr c nome_campo =
     (if \<not> startEditing c then (Inl AssertionError, c)
      else
        (let c1 = (if nome_campo \<notin> set (names (lfields c))
                   then addAttributes c \<lparr>fname = nome_campo, ftype = QVariantInt\<rparr>
                   else c)
         in case preencher (lfields c1) nome_campo 0 (getFeatures c1) of
              Inl e \<Rightarrow> (Inl e, c1)
            | Inr feats \<Rightarrow> (Inr (), c1\<lparr>getFeatures := feats\<rparr>)))"

definition gerenciar_campo_auxiliar :: "camada \<Rightarrow> string option \<times> camada \<times> evento list" where
  "gerenciar_campo_auxiliar c =
     (if identificar_tipo_camada c \<in> set [Wfs, Csv] \<or> \<not> camada_editavel c
      then (None, c, [])
      else
        (let nome_campo = ''id_row_nr''
         in case edit_id_row_nr c nome_campo of
              (Inl e, c') \<Rightarrow> (None, c', [exibir_mensagem (FailedAuxField e) True False])
            | (Inr u, c') \<Rightarrow> (Some nome_campo, c', [])))"

text \<open>
  \<open>identificar_campo_filtro\<close>: the value returned or the exception raised, with the
  layer and the messages as the call leaves them.
\<close>

definition identificar_campo_filtro ::
    "camada \<Rightarrow> (exc + string option) \<times> camada \<times> evento list" where
  "identificar_campo_filtro c =
     (let tipo_camada = identificar_tipo_camada c
      in if tipo_camada = Database then
           (case obter_chave_primaria c of
              (pk, log) \<Rightarrow>
                (case pk of
                   PyInt n \<Rightarrow>
                     if truthy pk then (Inl TypeError, c, log)
                     else (varrer_campos c (lfields c), c, log)
                 | PyStr s \<Rightarrow>
                     if truthy pk
                     then (case unico_e_sem_nulos c s of
                             Inl e \<Rightarrow> (Inl e, c, log)
                           | Inr True \<Rightarrow> (Inr (Some s), c, log)
                           | Inr False \<Rightarrow> (varrer_campos c (lfields c), c, log))
                     else (varrer_campos c (lfields c), c, log)
                 | PyNone \<Rightarrow> (varrer_campos c (lfields c), c, log)))
         else if tipo_camada \<in> set [Wfs, Csv] \<or> \<not> camada_editavel c then
           (varrer_campos c (lfields c), c, [])
         else if tipo_camada \<in> set [Kml, File, Temporary] then
           (case varrer_prioridades c prioridades of
              Inl e \<Rightarrow> (Inl e, c, [])
            | Inr (Some n) \<Rightarrow> (Inr (Some n), c, [])
            | Inr None \<Rightarrow>
                (case gerenciar_campo_auxiliar c of
                   (r, c', msgs) \<Rightarrow> (Inr r, c', msgs)))
         else (Inr None, c, []))"

section \<open>The filtering command\<close>

text \<open>
  The active layer of the interface: none, a layer that is not a vector layer, or a
  vector layer; and what the user answers to a confirmation dialog.
\<close>

datatype camada_ativa = SemCamada | NaoVetorial | Vetorial camada

record iface =
  activeLayer :: camada_ativa
  resposta_usuario :: botao

text \<open>\<open>getFeatures(QgsFeatureRequest().setFilterFids(selected_ids))\<close>.\<close>

definition getFeatures_fids :: "camada \<Rightarrow> int list \<Rightarrow> QgsFeature list" where
  "getFeatures_fids c ids = filter (\<lambda>feat. fid feat \<in> set ids) (getFeatures c)"

text \<open>\<open>[str(feat[campo]) for feat in ...]\<close>.\<close>

fun valores_de :: "QgsField list \<Rightarrow> string \<Rightarrow> QgsFeature list \<Rightarrow> exc + string list" where
  "valores_de campos campo [] = Inr []"
| "valores_de campos campo (feat # feats) =
     (case getitem_nome campos feat campo of
        Inl e \<Rightarrow> Inl e
      | Inr v \<Rightarrow>
          (case valores_de campos campo feats of
             Inl e \<Rightarrow> Inl e
           | Inr vs \<Rightarrow> Inr (py_str v # vs)))"

text \<open>\<open>camada.fields().field(campo).type()\<close>.\<close>

definition field_type :: "QgsField list \<Rightarrow> string \<Rightarrow> exc + qtype" where
  "field_type campos campo =
     (case lookupField campos campo of
        None \<Rightarrow> Inl KeyError
      | Some i \<Rightarrow> Inr (ftype (campos ! i)))"

definition valores_formatados :: "qtype \<Rightarrow> string list \<Rightarrow> string" where
  "valores_formatados tipo_campo valores =
     (if tipo_campo \<in> set [QVariantString, QVariantChar]
      then py_join '','' (map (\<lambda>v. [CHR 0x27] @ v @ [CHR 0x27]) valores)
      else py_join '','' valores)"

definition expressao_filtro :: "string \<Rightarrow> string \<Rightarrow> string" where
  "expressao_filtro campo formatados =
     [CHR 0x22] @ campo @ [CHR 0x22] @ '' IN ('' @ formatados @ '')''"

definition setSubsetString :: "camada \<Rightarrow> string \<Rightarrow> camada" where
  "setSubsetString c s = c\<lparr>subsetString := s\<rparr>"

text \<open>The body of the \<open>try\<close> block of \<open>executar_filtragem\<close>.\<close>

definition executar_filtragem_try :: "camada \<Rightarrow> (exc + unit) \<times> camada \<times> evento list" where
  "executar_filtragem_try c0 =
     (let c1 = setSubsetString c0 []
      in case identificar_campo_filtro c1 of
           (Inl e, c2, msgs) \<Rightarrow> (Inl e, c2, msgs)
         | (Inr None, c2, msgs) \<Rightarrow>
             (Inr (), c2, msgs @ [exibir_mensagem NoUniqueField True False])
         | (Inr (Some campo), c2, msgs) \<Rightarrow>
             if campo = [] then (Inr (), c2, msgs @ [exibir_mensagem NoUniqueField True False])
             else
               (case valores_de (lfields c2) campo
                       (getFeatures_fids c2 (selectedFeatureIds c2)) of
                  Inl e \<Rightarrow> (Inl e, c2, msgs)
                | Inr valores \<Rightarrow>
                    (case field_type (lfields c2) campo of
                       Inl e \<Rightarrow> (Inl e, c2, msgs)
                     | Inr tipo_campo \<Rightarrow>
                         (Inr (),
                          setSubsetString c2
                            (expressao_filtro campo (valores_formatados tipo_campo valores)),
                          msgs @ [exibir_mensagem
                                    (Filtered (layer_name c2) (length valores) campo)
                                    False True]))))"

definition executar_filtragem :: "iface \<Rightarrow> camada_ativa \<times> evento list" where
  "executar_filtragem i =
     (case activeLayer i of
        SemCamada \<Rightarrow> (SemCamada, [exibir_mensagem SelectValidLayer True False])
      | NaoVetorial \<Rightarrow> (NaoVetorial, [exibir_mensagem SelectValidLayer True False])
      | Vetorial c \<Rightarrow>
          if \<not> isValid c then (Vetorial c, [exibir_mensagem SelectValidLayer True False])
          else
            (let selected_ids = selectedFeatureIds c
             in if selected_ids = []
                then (Vetorial c, [exibir_mensagem NoFeaturesSelected True False])
                else
                  (let tipo_camada = identificar_tipo_camada c;
                       aviso = (tipo_camada = Wfs \<and> 20 < length selected_ids);
                       dialogo = (if aviso then [MessageBoxWarning (length selected_ids)] else [])
                   in if aviso \<and> resposta_usuario i = QMessageBoxNo
                      then (Vetorial c, dialogo @ [exibir_mensagem FilterCancelled False False])
                      else
                        (case executar_filtragem_try c of
                           (Inl e, c', msgs) \<Rightarrow>
                             (Vetorial c',
                              dialogo @ msgs @
                                [exibir_mensagem (ErrorFiltering e) True False,
                                 LogMessage (ErroDetalhado e) Critical])
                         | (Inr u, c', msgs) \<Rightarrow> (Vetorial c', dialogo @ msgs)))))"

section \<open>Notions used to state the properties\<close>

text \<open>
  Normalisation as the specification words it, written without the functions of the
  code: a string is trimmed (its leading and its trailing whitespace are removed) and
  case-folded (every upper-case letter is replaced by its lower-case letter); any other
  value is left as it is. The whitespace characters and the letters are listed one by
  one.
\<close>

definition whitespace_chars :: "char list" where
  "whitespace_chars =
     [CHR 0x09, CHR 0x0A, CHR 0x0B, CHR 0x0C, CHR 0x0D, CHR 0x1C, CHR 0x1D, CHR 0x1E,
      CHR 0x1F, CHR 0x20, CHR 0x85, CHR 0xA0]"



definition is_whitespace :: "char \<Rightarrow> bool" where
  "is_whitespace ch = (ch \<in> set whitespace_chars)"


fun trim_leading :: "string \<Rightarrow> string" where
  "trim_leading [] = []"
| "trim_leading (ch # s) = (if is_whitespace ch then trim_leading s else ch # s)"

fun trim_trailing :: "string \<Rightarrow> string" where
  "trim_trailing [] = []"
| "trim_trailing (ch # s) =
     (if is_whitespace ch \<and> trim_trailing s = [] then [] else ch # trim_trailing s)"

definition trimmed :: "string \<Rightarrow> string" where
  "trimmed s = trim_trailing (trim_leading s)"



definition valores_normalizados :: "nat \<Rightarrow> QgsFeature list \<Rightarrow> pyval list" where
  "valores_normalizados i feats = map (\<lambda>feat. normalizar (attributes feat ! i)) feats"

text \<open>
  The first field, in schema order, that is unique and free of \<open>None\<close>.
\<close>

definition primeiro_unico_sem_nulos :: "camada \<Rightarrow> string option" where
  "primeiro_unico_sem_nulos c =
     map_option fname
       (find (\<lambda>campo. campo_e_unico c (fname campo) = Inr True
                      \<and> possui_valores_nulos c (fname campo) = Inr False)
          (lfields c))"

text \<open>
  A field qualifies in a priority group when it passes the group's name and type test
  and is unique and free of \<open>None\<close>.
\<close>

definition qualifica :: "camada \<Rightarrow> grupo \<Rightarrow> QgsField \<Rightarrow> bool" where
  "qualifica c g campo =
     (nome_valido g campo \<and> tipo_valido g campo
      \<and> campo_e_unico c (fname campo) = Inr True
      \<and> possui_valores_nulos c (fname campo) = Inr False)"

text \<open>
  The records \<open>feats\<close> with their number, counted from \<open>k + 1\<close> in list order,
  written at position \<open>i\<close>.
\<close>

definition numerar :: "nat \<Rightarrow> nat \<Rightarrow> QgsFeature list \<Rightarrow> QgsFeature list" where
  "numerar i k feats =
     map (\<lambda>(j, feat). feat\<lparr>attributes := (attributes feat)[i := PyInt (int j + 1)]\<rparr>)
       (enumerate k feats)"

section \<open>Example layers\<close>

text \<open>
  An editable GeoPackage layer with a text field whose values collide once trimmed and
  lower-cased, and an integer field with distinct values.
\<close>

definition camada_arquivo :: camada where
  "camada_arquivo =
     \<lparr>layer_name = ''lotes'', provider_name = ''ogr'', source = ''/dados/Lotes.GPKG'',
      isTemporary = False, cap_AddAttributes = True, isValid = True,
      lfields = [\<lparr>fname = ''nome'', ftype = QVariantString\<rparr>,
                 \<lparr>fname = ''cod'', ftype = QVariantInt\<rparr>],
      getFeatures = [\<lparr>fid = 1, attributes = [PyStr '' Ana'', PyInt 30]\<rparr>,
                     \<lparr>fid = 2, attributes = [PyStr ''ana '', PyInt 10]\<rparr>,
                     \<lparr>fid = 3, attributes = [PyStr ''Bob'', PyInt 20]\<rparr>],
      selectedFeatureIds = [3, 1, 2], subsetString = ''cod > 5'',
      executeSql = SqlFalha ''executeSql'', startEditing = True\<rparr>"

text \<open>
  A PostGIS layer whose catalog names \<open>gid\<close> as primary key, the same layer when the
  catalog query is refused, and a WFS layer with 25 selected records.
\<close>

definition camada_postgres :: camada where
  "camada_postgres =
     \<lparr>layer_name = ''quadras'', provider_name = ''postgres'',
      source = ''dbname=geo table=quadras'',
      isTemporary = False, cap_AddAttributes = True, isValid = True,
      lfields = [\<lparr>fname = ''setor'', ftype = QVariantString\<rparr>,
                 \<lparr>fname = ''cod'', ftype = QVariantInt\<rparr>,
                 \<lparr>fname = ''gid'', ftype = QVariantInt\<rparr>],
      getFeatures = [\<lparr>fid = 1, attributes = [PyStr ''norte'', PyInt 7, PyInt 101]\<rparr>,
                     \<lparr>fid = 2, attributes = [PyStr ''norte'', PyInt 8, PyInt 102]\<rparr>],
      selectedFeatureIds = [2], subsetString = [],
      executeSql = SqlLinhas [[PyStr ''gid'']], startEditing = True\<rparr>"

definition camada_postgres_negada :: camada where
  "camada_postgres_negada = camada_postgres\<lparr>executeSql := SqlFalha ''permission denied''\<rparr>"

definition camada_wfs :: camada where
  "camada_wfs =
     \<lparr>layer_name = ''rios'', provider_name = ''WFS'',
      source = ''https://geo.example/ows?typename=rios'',
      isTemporary = False, cap_AddAttributes = False, isValid = True,
      lfields = [\<lparr>fname = ''gml_id'', ftype = QVariantString\<rparr>],
      getFeatures = [\<lparr>fid = 1, attributes = [PyStr ''rios.1'']\<rparr>,
                     \<lparr>fid = 2, attributes = [PyStr ''rios.2'']\<rparr>],
      selectedFeatureIds = [1..25], subsetString = ''gml_id <> 0'',
      executeSql = SqlFalha ''executeSql'', startEditing = False\<rparr>"

text \<open>
  Editable GeoPackage layers: one with an integer \<open>cod\<close> and a long-integer \<open>gid\<close>,
  one with an integer \<open>cod\<close>, a long-integer \<open>id\<close> and an integer \<open>x\<close>.
\<close>

definition camada_gid :: camada where
  "camada_gid =
     \<lparr>layer_name = ''lotes'', provider_name = ''ogr'', source = ''/dados/lotes.gpkg'',
      isTemporary = False, cap_AddAttributes = True, isValid = True,
      lfields = [\<lparr>fname = ''cod'', ftype = QVariantInt\<rparr>,
                 \<lparr>fname = ''gid'', ftype = QVariantLongLong\<rparr>],
      getFeatures = [\<lparr>fid = 1, attributes = [PyInt 5, PyInt 11]\<rparr>,
                     \<lparr>fid = 2, attributes = [PyInt 6, PyInt 12]\<rparr>],
      selectedFeatureIds = [1], subsetString = [],
      executeSql = SqlFalha ''executeSql'', startEditing = True\<rparr>"

definition camada_tres :: camada where
  "camada_tres =
     \<lparr>layer_name = ''lotes'', provider_name = ''ogr'', source = ''/dados/lotes.gpkg'',
      isTemporary = False, cap_AddAttributes = True, isValid = True,
      lfields = [\<lparr>fname = ''cod'', ftype = QVariantInt\<rparr>,
                 \<lparr>fname = ''id'', ftype = QVariantLongLong\<rparr>,
                 \<lparr>fname = ''x'', ftype = QVariantInt\<rparr>],
      getFeatures = [\<lparr>fid = 1, attributes = [PyInt 5, PyInt 11, PyInt 0]\<rparr>,
                     \<lparr>fid = 2, attributes = [PyInt 6, PyInt 12, PyInt 1]\<rparr>],
      selectedFeatureIds = [1], subsetString = [],
      executeSql = SqlFalha ''executeSql'', startEditing = True\<rparr>"

text \<open>
  An editable GeoPackage layer whose only fields are texts with repeated values, one of
  them already named \<open>id_row_nr\<close>.
\<close>

definition camada_texto :: camada where
  "camada_texto =
     \<lparr>layer_name = ''pontos'', provider_name = ''ogr'', source = ''/dados/pontos.gpkg'',
      isTemporary = False, cap_AddAttributes = True, isValid = True,
      lfields = [\<lparr>fname = ''id_row_nr'', ftype = QVariantString\<rparr>,
                 \<lparr>fname = ''obs'', ftype = QVariantString\<rparr>],
      getFeatures = [\<lparr>fid = 7, attributes = [PyStr ''a'', PyStr ''x'']\<rparr>,
                     \<lparr>fid = 9, attributes = [PyStr ''a'', PyStr ''x'']\<rparr>],
      selectedFeatureIds = [9], subsetString = ''obs = 1'',
      executeSql = SqlFalha ''executeSql'', startEditing = True\<rparr>"

definition camada_texto_numerada :: camada where
  "camada_texto_numerada =
     camada_texto\<lparr>getFeatures := [\<lparr>fid = 7, attributes = [PyInt 1, PyStr ''x'']\<rparr>,
                                  \<lparr>fid = 9, attributes = [PyInt 2, PyStr ''x'']\<rparr>]\<rparr>"

text \<open>An editable GeoPackage layer with no field named \<open>id_row_nr\<close> and repeated values.\<close>

definition camada_sem_chave :: camada where
  "camada_sem_chave =
     \<lparr>layer_name = ''pontos'', provider_name = ''ogr'', source = ''/dados/pontos.gpkg'',
      isTemporary = False, cap_AddAttributes = True, isValid = True,
      lfields = [\<lparr>fname = ''obs'', ftype = QVariantString\<rparr>],
      getFeatures = [\<lparr>fid = 7, attributes = [PyStr ''x'']\<rparr>,
                     \<lparr>fid = 9, attributes = [PyStr ''x'']\<rparr>],
      selectedFeatureIds = [9], subsetString = ''obs = 1'',
      executeSql = SqlFalha ''executeSql'', startEditing = True\<rparr>"

text \<open>
  An editable GeoPackage layer whose first field \<open>x\<close> is an integer with no keyword in
  its name and whose second field \<open>cod\<close> is an integer too.
\<close>

definition camada_x_cod :: camada where
  "camada_x_cod =
     \<lparr>layer_name = ''lotes'', provider_name = ''ogr'', source = ''/dados/lotes.gpkg'',
      isTemporary = False, cap_AddAttributes = True, isValid = True,
      lfields = [\<lparr>fname = ''x'', ftype = QVariantInt\<rparr>,
                 \<lparr>fname = ''cod'', ftype = QVariantInt\<rparr>],
      getFeatures = [\<lparr>fid = 1, attributes = [PyInt 0, PyInt 5]\<rparr>,
                     \<lparr>fid = 2, attributes = [PyInt 1, PyInt 6]\<rparr>],
      selectedFeatureIds = [1], subsetString = [],
      executeSql = SqlFalha ''executeSql'', startEditing = True\<rparr>"

text \<open>
  A shapefile layer that accepts no new attributes, with a filter already set and no
  field with distinct values.
\<close>

definition camada_somente_leitura :: camada where
  "camada_somente_leitura =
     \<lparr>layer_name = ''pontos'', provider_name = ''ogr'', source = ''/dados/pontos.shp'',
      isTemporary = False, cap_AddAttributes = False, isValid = True,
      lfields = [\<lparr>fname = ''obs'', ftype = QVariantString\<rparr>],
      getFeatures = [\<lparr>fid = 7, attributes = [PyStr ''x'']\<rparr>,
                     \<lparr>fid = 9, attributes = [PyStr ''x'']\<rparr>],
      selectedFeatureIds = [9], subsetString = ''obs = 1'',
      executeSql = SqlFalha ''executeSql'', startEditing = False\<rparr>"


section \<open>Schema lookup\<close>

lemma lookupField_Some:
  "lookupField campos nome = Some i \<Longrightarrow> i < length campos \<and> fname (campos ! i) = nome"
  by (induction campos arbitrary: i) (auto split: if_splits)

lemma lookupField_None: "lookupField campos nome = None \<longleftrightarrow> nome \<notin> set (names campos)"
  by (induction campos) (auto simp: names_def)

lemma wf_camada_idx:
  "wf_camada c \<Longrightarrow> lookupField (lfields c) nome = Some i \<Longrightarrow>
     \<forall>feat \<in> set (getFeatures c). i < length (attributes feat)"
  by (auto simp: wf_camada_def list_all_iff dest: lookupField_Some)

section \<open>The uniqueness test\<close>

lemma campo_e_unico_loop_eq:
  assumes "\<forall>feat \<in> set feats. i < length (attributes feat)"
  shows "campo_e_unico_loop i feats S =
           Inr (if distinct (valores_normalizados i feats)
                   \<and> set (valores_normalizados i feats) \<inter> S = {}
                then Some (S \<union> set (valores_normalizados i feats)) else None)"
  using assms
proof (induction feats arbitrary: S)
  case Nil
  then show ?case by (simp add: valores_normalizados_def)
next
  case (Cons feat feats)
  then show ?case
    by (auto simp: valores_normalizados_def getitem_idx_def Let_def)
qed

lemma campo_e_unico_wf:
  assumes "wf_camada c" and "lookupField (lfields c) nome = Some i"
  shows "campo_e_unico c nome = Inr (distinct (valores_normalizados i (getFeatures c)))"
proof -
  let ?vs = "valores_normalizados i (getFeatures c)"
  have len: "length ?vs = length (getFeatures c)" by (simp add: valores_normalizados_def)
  show ?thesis
    using campo_e_unico_loop_eq[OF wf_camada_idx[OF assms], of "{}"] assms(2) len
    by (auto simp: campo_e_unico_def featureCount_def distinct_card)
qed



subsection \<open>The code normalises as the specification says\<close>





lemma trim_leading_eq: "trim_leading s = dropWhile is_whitespace s"
  by (induction s) simp_all

lemma rev_dropWhile_rev_Nil:
  "rev (dropWhile P (rev s)) = [] \<longleftrightarrow> (\<forall>ch \<in> set s. P ch)"
  by (simp add: dropWhile_eq_Nil_conv)

lemma trim_trailing_eq: "trim_trailing s = rev (dropWhile is_whitespace (rev s))"
proof (induction s)
  case Nil
  then show ?case by simp
next
  case (Cons ch s)
  have "rev (dropWhile is_whitespace (rev (ch # s)))
          = (if \<forall>x \<in> set s. is_whitespace x
             then rev (dropWhile is_whitespace [ch])
             else ch # rev (dropWhile is_whitespace (rev s)))"
    by (simp add: dropWhile_append)
  then show ?case
    using Cons rev_dropWhile_rev_Nil[of is_whitespace s]
    by (auto simp: dropWhile_eq_Nil_conv)
qed




text \<open>What trimming leaves: the string between its leading and its trailing whitespace.\<close>

lemma trimmed_decomp:
  "\<exists>l r. s = l @ trimmed s @ r \<and> list_all is_whitespace l \<and> list_all is_whitespace r
         \<and> (trimmed s = [] \<or> (\<not> is_whitespace (hd (trimmed s))
                              \<and> \<not> is_whitespace (last (trimmed s))))"
proof -
  let ?P = is_whitespace
  let ?m = "dropWhile ?P s"
  let ?t = "rev (dropWhile ?P (rev ?m))"
  have t: "trimmed s = ?t" by (simp add: trimmed_def trim_leading_eq trim_trailing_eq)
  have a: "s = takeWhile ?P s @ ?m" by simp
  have b: "?m = ?t @ rev (takeWhile ?P (rev ?m))"
    by (metis rev_append rev_rev_ident takeWhile_dropWhile_id)
  have l: "list_all ?P (takeWhile ?P s)"
    by (auto simp: list_all_iff dest: set_takeWhileD)
  have r: "list_all ?P (rev (takeWhile ?P (rev ?m)))"
    by (auto simp: list_all_iff dest: set_takeWhileD)
  have e: "?t = [] \<or> (\<not> ?P (hd ?t) \<and> \<not> ?P (last ?t))"
  proof (cases "?t = []")
    case True
    then show ?thesis by simp
  next
    case False
    then have ne: "dropWhile ?P (rev ?m) \<noteq> []" by simp
    have la: "\<not> ?P (last ?t)"
      using ne hd_dropWhile[of ?P "rev ?m"] by (simp add: last_rev)
    have "?m \<noteq> []"
    proof
      assume "?m = []"
      then have "dropWhile ?P (rev ?m) = []"
        by (simp only: rev.simps dropWhile.simps)
      with ne show False by (simp only:)
    qed
    then have h: "\<not> ?P (hd ?m)" using hd_dropWhile[of ?P s] by simp
    have "hd ?m = hd ?t" using b False by (metis hd_append2)
    then show ?thesis using la h by simp
  qed
  from a b have "s = takeWhile ?P s @ ?t @ rev (takeWhile ?P (rev ?m))" by simp
  then show ?thesis using l r e t by metis
qed



section \<open>The primary key resolver\<close>

lemma Database_provedor:
  "identificar_tipo_camada c = Database \<Longrightarrow>
     py_lower (provider_name c) \<in> set [''postgres'', ''postgresql'', ''oracle'', ''mssql'',
                                        ''mysql'', ''spatialite'']"
  unfolding identificar_tipo_camada_def Let_def by (simp split: if_splits)

text \<open>
  C9. \<open>obter_chave_primaria\<close> returns a value and log entries, never an exception:
  whatever is raised inside its \<open>try\<close> block is logged as a warning and the result is
  \<open>None\<close>. In particular, when the provider of a database layer refuses the catalog
  query, the resolver logs the failure and returns \<open>None\<close>, and its caller
  \<open>identificar_campo_filtro\<close> goes on to scan the fields of the unchanged layer.
\<close>

theorem obter_chave_primaria_captura:
  "(obter_chave_primaria_try c = Inl e \<longrightarrow>
      obter_chave_primaria c = (PyNone, [LogMessage (ErroObterPK e) Warning]))
   \<and> (identificar_tipo_camada c = Database \<and> executeSql c = SqlFalha m \<longrightarrow>
        obter_chave_primaria c = (PyNone, [LogMessage (ErroObterPK (SqlError m)) Warning])
      \<and> identificar_campo_filtro c =
          (varrer_campos c (lfields c), c, [LogMessage (ErroObterPK (SqlError m)) Warning]))"
proof -
  have a: "obter_chave_primaria_try c = Inl e \<longrightarrow>
      obter_chave_primaria c = (PyNone, [LogMessage (ErroObterPK e) Warning])"
    by (simp add: obter_chave_primaria_def)
  have b: "obter_chave_primaria_try c = Inl (SqlError m)"
    if "identificar_tipo_camada c = Database" "executeSql c = SqlFalha m"
    using Database_provedor[OF that(1)] that(2)
    unfolding obter_chave_primaria_try_def Let_def by auto
  have c: "obter_chave_primaria c = (PyNone, [LogMessage (ErroObterPK (SqlError m)) Warning])"
    if "identificar_tipo_camada c = Database" "executeSql c = SqlFalha m"
    using b[OF that] by (simp add: obter_chave_primaria_def)
  have d: "identificar_campo_filtro c =
          (varrer_campos c (lfields c), c, [LogMessage (ErroObterPK (SqlError m)) Warning])"
    if "identificar_tipo_camada c = Database" "executeSql c = SqlFalha m"
    using c[OF that] that(1) by (simp add: identificar_campo_filtro_def)
  show ?thesis using a c d by blast
qed

theorem obter_chave_primaria_captura_witness:
  "identificar_tipo_camada camada_postgres_negada = Database
   \<and> executeSql camada_postgres_negada = SqlFalha ''permission denied''
   \<and> obter_chave_primaria camada_postgres_negada =
       (PyNone, [LogMessage (ErroObterPK (SqlError ''permission denied'')) Warning])
   \<and> identificar_campo_filtro camada_postgres_negada =
       (Inr (Some ''cod''), camada_postgres_negada,
        [LogMessage (ErroObterPK (SqlError ''permission denied'')) Warning])"
proof -
  have t: "identificar_tipo_camada camada_postgres_negada = Database" by code_simp
  have q: "executeSql camada_postgres_negada = SqlFalha ''permission denied''" by code_simp
  have v: "varrer_campos camada_postgres_negada (lfields camada_postgres_negada)
             = Inr (Some ''cod'')" by code_simp
  show ?thesis
    using obter_chave_primaria_captura[of camada_postgres_negada "SqlError ''permission denied''"
        "''permission denied''"] t q v
    by simp
qed

section \<open>The confirmation for large selections on WFS layers\<close>

text \<open>
  C8. On a valid WFS layer with more than 20 selected records the first thing
  \<open>executar_filtragem\<close> does is to show the warning dialog; when the user answers
  \<open>No\<close> the only further effect is the message that the filter was cancelled, and
  the layer, its subset string included, is left as it was.
\<close>

theorem aviso_wfs:
  assumes "activeLayer i = Vetorial c" and "isValid c"
    and "identificar_tipo_camada c = Wfs" and "20 < length (selectedFeatureIds c)"
  shows "(\<exists>resto. snd (executar_filtragem i)
                    = MessageBoxWarning (length (selectedFeatureIds c)) # resto)
       \<and> (resposta_usuario i = QMessageBoxNo \<longrightarrow>
            executar_filtragem i =
              (Vetorial c, [MessageBoxWarning (length (selectedFeatureIds c)),
                            PushMessage FilterCancelled Info 4]))"
proof -
  have ne: "selectedFeatureIds c \<noteq> []" using assms(4) by auto
  have no: "resposta_usuario i = QMessageBoxNo \<longrightarrow>
            executar_filtragem i =
              (Vetorial c, [MessageBoxWarning (length (selectedFeatureIds c)),
                            PushMessage FilterCancelled Info 4])"
    using assms ne by (simp add: executar_filtragem_def Let_def exibir_mensagem_def)
  have first: "\<exists>resto. snd (executar_filtragem i)
                    = MessageBoxWarning (length (selectedFeatureIds c)) # resto"
  proof (cases "resposta_usuario i = QMessageBoxNo")
    case True
    then show ?thesis using no by simp
  next
    case False
    obtain r c' msgs where t: "executar_filtragem_try c = (r, c', msgs)"
      by (cases "executar_filtragem_try c") auto
    show ?thesis
      using assms ne False t
      by (cases r) (simp_all add: executar_filtragem_def Let_def)
  qed
  show ?thesis using first no by blast
qed

theorem aviso_wfs_witness:
  "identificar_tipo_camada camada_wfs = Wfs
   \<and> 20 < length (selectedFeatureIds camada_wfs)
   \<and> executar_filtragem \<lparr>activeLayer = Vetorial camada_wfs, resposta_usuario = QMessageBoxNo\<rparr>
       = (Vetorial camada_wfs, [MessageBoxWarning 25, PushMessage FilterCancelled Info 4])"
proof -
  have t: "identificar_tipo_camada camada_wfs = Wfs" by code_simp
  have v: "isValid camada_wfs" by code_simp
  have n: "length (selectedFeatureIds camada_wfs) = 25" by code_simp
  show ?thesis
    using aviso_wfs[of "\<lparr>activeLayer = Vetorial camada_wfs, resposta_usuario = QMessageBoxNo\<rparr>"
        camada_wfs] t v n
    by simp
qed

section \<open>Keyword matching in the priority groups\<close>

lemma py_in_sublist: "py_in needle hay \<longleftrightarrow> sublist needle hay"
  by (induction hay) (auto simp: sublist_Cons_right)

lemma py_in_iff: "py_in needle hay \<longleftrightarrow> (\<exists>ps ss. hay = ps @ needle @ ss)"
  by (simp add: py_in_sublist sublist_def)

lemma contem_id:
  "(\<exists>ps ss. (s::string) = ps @ ''fid'' @ ss) \<or> (\<exists>ps ss. s = ps @ ''id'' @ ss)
     \<or> (\<exists>ps ss. s = ps @ ''objectid'' @ ss)
   \<longleftrightarrow> (\<exists>ps ss. s = ps @ ''id'' @ ss)"
proof -
  have a: "\<exists>ps' ss'. s = ps' @ ''id'' @ ss'" if "s = ps @ ''fid'' @ ss" for ps ss
    using that by (intro exI[of _ "ps @ ''f''"] exI[of _ ss]) simp
  have b: "\<exists>ps' ss'. s = ps' @ ''id'' @ ss'" if "s = ps @ ''objectid'' @ ss" for ps ss
    using that by (intro exI[of _ "ps @ ''object''"] exI[of _ ss]) simp
  show ?thesis using a b by blast
qed

text \<open>
  C3, as the code has it. A field passes the name and type test of the first priority
  group exactly when its lower-cased name contains \<open>fid\<close>, \<open>id\<close> or \<open>objectid\<close> as a
  substring, which is the same as containing \<open>id\<close>, and its type is integer or
  long integer.
\<close>

theorem tier1_substring:
  "(nome_valido (prioridades ! 0) campo \<and> tipo_valido (prioridades ! 0) campo
     \<longleftrightarrow> ((\<exists>ps ss. py_lower (fname campo) = ps @ ''fid'' @ ss)
            \<or> (\<exists>ps ss. py_lower (fname campo) = ps @ ''id'' @ ss)
            \<or> (\<exists>ps ss. py_lower (fname campo) = ps @ ''objectid'' @ ss))
          \<and> ftype campo \<in> {QVariantInt, QVariantLongLong})
   \<and> (nome_valido (prioridades ! 0) campo \<and> tipo_valido (prioridades ! 0) campo
     \<longleftrightarrow> (\<exists>ps ss. py_lower (fname campo) = ps @ ''id'' @ ss)
          \<and> ftype campo \<in> {QVariantInt, QVariantLongLong})"
proof -
  have n: "nome_valido (prioridades ! 0) campo
     \<longleftrightarrow> (\<exists>ps ss. py_lower (fname campo) = ps @ ''fid'' @ ss)
            \<or> (\<exists>ps ss. py_lower (fname campo) = ps @ ''id'' @ ss)
            \<or> (\<exists>ps ss. py_lower (fname campo) = ps @ ''objectid'' @ ss)"
    by (simp add: nome_valido_def prioridades_def Let_def py_in_iff)
  have t: "tipo_valido (prioridades ! 0) campo \<longleftrightarrow> ftype campo \<in> {QVariantInt, QVariantLongLong}"
    by (simp add: tipo_valido_def prioridades_def)
  show ?thesis using n t contem_id[of "py_lower (fname campo)"] by blast
qed

theorem tier1_substring_witness:
  "nome_valido (prioridades ! 0) \<lparr>fname = ''Codigo_IDENT'', ftype = QVariantInt\<rparr>
   \<and> tipo_valido (prioridades ! 0) \<lparr>fname = ''Codigo_IDENT'', ftype = QVariantInt\<rparr>"
proof -
  have "py_lower ''Codigo_IDENT'' = ''codigo_'' @ ''id'' @ ''ent''" by code_simp
  then have "\<exists>ps ss. py_lower ''Codigo_IDENT'' = ps @ ''id'' @ ss" by blast
  then show ?thesis
    using tier1_substring[of "\<lparr>fname = ''Codigo_IDENT'', ftype = QVariantInt\<rparr>"] by simp
qed

text \<open>
  The long-integer field \<open>gid\<close> is not named \<open>fid\<close>, \<open>id\<close> or \<open>objectid\<close>, yet it
  passes the test of the first group and is selected before the integer field \<open>cod\<close>
  that precedes it in the schema.
\<close>

theorem tier1_exato_counterexample:
  "nome_valido (prioridades ! 0) \<lparr>fname = ''gid'', ftype = QVariantLongLong\<rparr>
   \<and> tipo_valido (prioridades ! 0) \<lparr>fname = ''gid'', ftype = QVariantLongLong\<rparr>
   \<and> py_lower ''gid'' \<notin> set [''fid'', ''id'', ''objectid'']
   \<and> identificar_campo_filtro camada_gid = (Inr (Some ''gid''), camada_gid, [])"
  by code_simp

section \<open>The filter expression\<close>

lemma valores_de_eq:
  assumes "lookupField campos campo = Some i"
    and "\<forall>feat \<in> set feats. i < length (attributes feat)"
  shows "valores_de campos campo feats = Inr (map (\<lambda>feat. py_str (attributes feat ! i)) feats)"
  using assms(2)
  by (induction feats) (simp_all add: getitem_nome_def getitem_idx_def assms(1))

text \<open>
  C5, as the code has it. When the selected field is neither of string nor of character
  type, the subset string set by \<open>executar_filtragem\<close> is \<open>"<field>" IN (<values>)\<close>
  where the values are the \<open>str\<close> of the field in the selected records, in the order
  in which the layer yields these records, joined by \<open>,\<close> and unquoted. They are not
  sorted.
\<close>

theorem expressao_ordem_de_iteracao:
  assumes "identificar_campo_filtro (setSubsetString c []) = (Inr (Some campo), c2, msgs)"
    and "campo \<noteq> []" and "wf_camada c2"
    and "lookupField (lfields c2) campo = Some i"
    and "ftype (lfields c2 ! i) \<notin> {QVariantString, QVariantChar}"
  shows "executar_filtragem_try c =
           (Inr (),
            setSubsetString c2
              ([CHR 0x22] @ campo @ [CHR 0x22] @ '' IN (''
                 @ py_join '',''
                     (map (\<lambda>feat. py_str (attributes feat ! i))
                        (filter (\<lambda>feat. fid feat \<in> set (selectedFeatureIds c2))
                           (getFeatures c2)))
                 @ '')''),
            msgs @ [PushMessage
                      (Filtered (layer_name c2)
                         (length (filter (\<lambda>feat. fid feat \<in> set (selectedFeatureIds c2))
                                    (getFeatures c2)))
                         campo)
                      Success 3])"
proof -
  let ?sel = "getFeatures_fids c2 (selectedFeatureIds c2)"
  have idx: "\<forall>feat \<in> set ?sel. i < length (attributes feat)"
    using wf_camada_idx[OF assms(3,4)] by (simp add: getFeatures_fids_def)
  have v: "valores_de (lfields c2) campo ?sel
             = Inr (map (\<lambda>feat. py_str (attributes feat ! i)) ?sel)"
    using valores_de_eq[OF assms(4) idx] .
  have t: "field_type (lfields c2) campo = Inr (ftype (lfields c2 ! i))"
    using assms(4) by (simp add: field_type_def)
  show ?thesis
    using assms(1,2,5) v t
    by (simp add: executar_filtragem_try_def Let_def valores_formatados_def
        expressao_filtro_def exibir_mensagem_def getFeatures_fids_def)
qed

theorem expressao_ordem_de_iteracao_witness:
  "executar_filtragem_try camada_arquivo =
     (Inr (),
      camada_arquivo\<lparr>subsetString := [CHR 0x22] @ ''cod'' @ [CHR 0x22] @ '' IN (30,10,20)''\<rparr>,
      [PushMessage (Filtered ''lotes'' 3 ''cod'') Success 3])"
proof -
  let ?c2 = "setSubsetString camada_arquivo []"
  have s: "identificar_campo_filtro (setSubsetString camada_arquivo [])
             = (Inr (Some ''cod''), ?c2, [])" by code_simp
  have wf: "wf_camada ?c2" by code_simp
  have l: "lookupField (lfields ?c2) ''cod'' = Some 1" by code_simp
  have ty: "ftype (lfields ?c2 ! 1) \<notin> {QVariantString, QVariantChar}" by code_simp
  have ne: "''cod'' \<noteq> []" by simp
  have r: "setSubsetString ?c2
              ([CHR 0x22] @ ''cod'' @ [CHR 0x22] @ '' IN (''
                 @ py_join '',''
                     (map (\<lambda>feat. py_str (attributes feat ! 1))
                        (filter (\<lambda>feat. fid feat \<in> set (selectedFeatureIds ?c2))
                           (getFeatures ?c2)))
                 @ '')'')
           = camada_arquivo\<lparr>subsetString := [CHR 0x22] @ ''cod'' @ [CHR 0x22] @ '' IN (30,10,20)''\<rparr>"
    by code_simp
  have n: "length (filter (\<lambda>feat. fid feat \<in> set (selectedFeatureIds ?c2)) (getFeatures ?c2)) = 3"
    by code_simp
  have nm: "layer_name ?c2 = ''lotes''" by code_simp
  show ?thesis
    using expressao_ordem_de_iteracao[OF s ne wf l ty] r n nm by simp
qed

text \<open>
  The records of the example layer hold 30, 10 and 20 in the integer field \<open>cod\<close>, in
  this order, and all three are selected: the value list of the filter is \<open>30,10,20\<close>,
  not \<open>10,20,30\<close>.
\<close>

theorem expressao_ordenada_counterexample:
  "valores_formatados QVariantInt (map py_str [PyInt 30, PyInt 10, PyInt 20]) = ''30,10,20''
   \<and> valores_formatados QVariantInt (map py_str [PyInt 30, PyInt 10, PyInt 20]) \<noteq> ''10,20,30''
   \<and> fst (executar_filtragem
            \<lparr>activeLayer = Vetorial camada_arquivo, resposta_usuario = QMessageBoxYes\<rparr>)
       = Vetorial (camada_arquivo
           \<lparr>subsetString := [CHR 0x22] @ ''cod'' @ [CHR 0x22] @ '' IN (30,10,20)''\<rparr>)"
  by code_simp

section \<open>Scanning the fields\<close>

lemma campo_e_unico_True_names:
  "campo_e_unico c n = Inr True \<Longrightarrow> n \<in> set (names (lfields c))"
proof -
  assume u: "campo_e_unico c n = Inr True"
  have "lookupField (lfields c) n \<noteq> None"
    using u by (auto simp: campo_e_unico_def split: option.splits)
  then show ?thesis using lookupField_None[of "lfields c" n] by simp
qed

lemma possui_valores_nulos_loop_eq:
  assumes "lookupField campos n = Some i"
    and "\<forall>feat \<in> set feats. i < length (attributes feat)"
  shows "possui_valores_nulos_loop campos n feats
           = Inr (PyNone \<in> set (map (\<lambda>feat. attributes feat ! i) feats))"
  using assms(2)
  by (induction feats) (auto simp: getitem_nome_def getitem_idx_def assms(1))

lemma possui_valores_nulos_wf:
  assumes "wf_camada c" and "lookupField (lfields c) n = Some i"
  shows "possui_valores_nulos c n
           = Inr (PyNone \<in> set (map (\<lambda>feat. attributes feat ! i) (getFeatures c)))"
  unfolding possui_valores_nulos_def
  using possui_valores_nulos_loop_eq[OF assms(2) wf_camada_idx[OF assms]] .

lemma unico_e_sem_nulos_True:
  "unico_e_sem_nulos c n = Inr True \<longleftrightarrow>
     campo_e_unico c n = Inr True \<and> possui_valores_nulos c n = Inr False"
  by (auto simp: unico_e_sem_nulos_def split: sum.splits bool.splits)

lemma unico_e_sem_nulos_wf:
  assumes "wf_camada c"
  shows "unico_e_sem_nulos c n
           = Inr (campo_e_unico c n = Inr True \<and> possui_valores_nulos c n = Inr False)"
proof (cases "lookupField (lfields c) n")
  case None
  then show ?thesis by (simp add: unico_e_sem_nulos_def campo_e_unico_def)
next
  case (Some i)
  show ?thesis
    using campo_e_unico_wf[OF assms Some] possui_valores_nulos_wf[OF assms Some]
    by (simp add: unico_e_sem_nulos_def split: bool.splits)
qed

lemma varrer_campos_Some:
  "varrer_campos c fs = Inr (Some n) \<Longrightarrow> unico_e_sem_nulos c n = Inr True"
  by (induction fs) (auto split: sum.splits bool.splits if_splits)

lemma varrer_campos_wf:
  assumes "wf_camada c"
  shows "varrer_campos c fs =
           Inr (map_option fname
                  (find (\<lambda>campo. campo_e_unico c (fname campo) = Inr True
                                 \<and> possui_valores_nulos c (fname campo) = Inr False) fs))"
  by (induction fs) (simp_all add: unico_e_sem_nulos_wf[OF assms] split: bool.splits)

lemma varrer_grupo_Some:
  "varrer_grupo c g fs = Inr (Some n) \<Longrightarrow> unico_e_sem_nulos c n = Inr True"
  by (induction fs) (auto split: sum.splits bool.splits if_splits)

lemma varrer_grupo_wf:
  assumes "wf_camada c"
  shows "varrer_grupo c g fs = Inr (map_option fname (find (qualifica c g) fs))"
  by (induction fs) (auto simp: unico_e_sem_nulos_wf[OF assms] qualifica_def split: bool.splits)

lemma varrer_prioridades_Some:
  "varrer_prioridades c gs = Inr (Some n) \<Longrightarrow> unico_e_sem_nulos c n = Inr True"
  by (induction gs) (auto split: sum.splits option.splits dest: varrer_grupo_Some)

lemma varrer_prioridades_wf:
  assumes "wf_camada c"
  shows "\<exists>r. varrer_prioridades c gs = Inr r"
  by (induction gs) (auto simp: varrer_grupo_wf[OF assms] split: option.splits)

text \<open>
  C2. On a layer classified as database the selector never changes the layer. When the
  records carry one value per field, it returns the primary key reported by the catalog
  if that is a non-empty name which is unique and free of \<open>None\<close>; otherwise it returns
  the first field, in schema order, that is unique and free of \<open>None\<close>, and
  \<open>None\<close> when there is no such field. (A catalog answer that is a non-zero number
  instead of a name makes the lookup raise \<open>TypeError\<close>.)
\<close>

theorem ramo_banco_de_dados:
  assumes "identificar_tipo_camada c = Database"
  shows "fst (snd (identificar_campo_filtro c)) = c
       \<and> (wf_camada c \<longrightarrow>
            fst (identificar_campo_filtro c) =
              (case fst (obter_chave_primaria c) of
                 PyStr s \<Rightarrow>
                   Inr (if s \<noteq> [] \<and> campo_e_unico c s = Inr True
                           \<and> possui_valores_nulos c s = Inr False
                        then Some s else primeiro_unico_sem_nulos c)
               | PyInt n \<Rightarrow> if n = 0 then Inr (primeiro_unico_sem_nulos c) else Inl TypeError
               | PyNone \<Rightarrow> Inr (primeiro_unico_sem_nulos c)))"
proof -
  obtain pk log where pk: "obter_chave_primaria c = (pk, log)"
    by (cases "obter_chave_primaria c") auto
  have same: "fst (snd (identificar_campo_filtro c)) = c"
    using assms pk
    by (cases pk) (auto simp: identificar_campo_filtro_def split: sum.splits bool.splits)
  have res: "fst (identificar_campo_filtro c) =
              (case pk of
                 PyStr s \<Rightarrow>
                   Inr (if s \<noteq> [] \<and> campo_e_unico c s = Inr True
                           \<and> possui_valores_nulos c s = Inr False
                        then Some s else primeiro_unico_sem_nulos c)
               | PyInt n \<Rightarrow> if n = 0 then Inr (primeiro_unico_sem_nulos c) else Inl TypeError
               | PyNone \<Rightarrow> Inr (primeiro_unico_sem_nulos c))"
    if wf: "wf_camada c"
    using assms pk
    by (cases pk)
       (auto simp: identificar_campo_filtro_def varrer_campos_wf[OF wf]
          unico_e_sem_nulos_wf[OF wf] primeiro_unico_sem_nulos_def)
  show ?thesis using same res pk by simp
qed

text \<open>
  In the example the catalog names \<open>gid\<close>; the scan alone would have stopped at
  \<open>cod\<close>, which precedes it in the schema.
\<close>

theorem ramo_banco_de_dados_witness:
  "identificar_tipo_camada camada_postgres = Database
   \<and> wf_camada camada_postgres
   \<and> primeiro_unico_sem_nulos camada_postgres = Some ''cod''
   \<and> identificar_campo_filtro camada_postgres = (Inr (Some ''gid''), camada_postgres, [])"
proof -
  have t: "identificar_tipo_camada camada_postgres = Database" by code_simp
  have wf: "wf_camada camada_postgres" by code_simp
  have pk: "fst (obter_chave_primaria camada_postgres) = PyStr ''gid''" by code_simp
  have u: "campo_e_unico camada_postgres ''gid'' = Inr True" by code_simp
  have n: "possui_valores_nulos camada_postgres ''gid'' = Inr False" by code_simp
  have p: "primeiro_unico_sem_nulos camada_postgres = Some ''cod''" by code_simp
  have m: "snd (snd (identificar_campo_filtro camada_postgres)) = []" by code_simp
  have "fst (snd (identificar_campo_filtro camada_postgres)) = camada_postgres
        \<and> fst (identificar_campo_filtro camada_postgres) = Inr (Some ''gid'')"
    using ramo_banco_de_dados[OF t] wf pk u n by simp
  then have "identificar_campo_filtro camada_postgres = (Inr (Some ''gid''), camada_postgres, [])"
    using m by (cases "identificar_campo_filtro camada_postgres") auto
  then show ?thesis using t wf p by simp
qed

section \<open>The auxiliary field and the selected field\<close>

lemma campo_e_unico_idx:
  assumes "lookupField (lfields c) n = Some i"
    and "\<forall>feat \<in> set (getFeatures c). i < length (attributes feat)"
  shows "campo_e_unico c n = Inr (distinct (valores_normalizados i (getFeatures c)))"
proof -
  let ?vs = "valores_normalizados i (getFeatures c)"
  have len: "length ?vs = length (getFeatures c)" by (simp add: valores_normalizados_def)
  show ?thesis
    using campo_e_unico_loop_eq[OF assms(2), of "{}"] assms(1) len
    by (auto simp: campo_e_unico_def featureCount_def distinct_card)
qed

lemma preencher_idx:
  assumes "lookupField campos n = Some i"
  shows "preencher campos n k feats = Inr feats' \<Longrightarrow>
           \<forall>feat \<in> set feats. i < length (attributes feat)"
  by (induction feats arbitrary: k feats')
     (auto simp: setitem_nome_def assms split: sum.splits if_splits)

lemma preencher_eq:
  assumes "lookupField campos n = Some i"
  shows "\<forall>feat \<in> set feats. i < length (attributes feat) \<Longrightarrow>
           preencher campos n k feats = Inr (numerar i k feats)"
  by (induction feats arbitrary: k) (auto simp: setitem_nome_def assms numerar_def)

lemma length_numerar: "length (numerar i k feats) = length feats"
  by (simp add: numerar_def)

lemma numerar_Cons:
  "numerar i k (feat # feats) =
     feat\<lparr>attributes := (attributes feat)[i := PyInt (int k + 1)]\<rparr> # numerar i (Suc k) feats"
  by (simp add: numerar_def)

lemma numerar_Nil: "numerar i k [] = []"
  by (simp add: numerar_def)

lemma numerar_lengths:
  "map (\<lambda>feat. length (attributes feat)) (numerar i k feats)
     = map (\<lambda>feat. length (attributes feat)) feats"
  by (induction feats arbitrary: k) (simp_all add: numerar_Cons numerar_Nil)

lemma numerar_fids: "map fid (numerar i k feats) = map fid feats"
  by (induction feats arbitrary: k) (simp_all add: numerar_Cons numerar_Nil)

lemma numerar_idx:
  "\<forall>feat \<in> set feats. i < length (attributes feat) \<Longrightarrow>
     \<forall>feat \<in> set (numerar i k feats). i < length (attributes feat)"
  by (induction feats arbitrary: k) (simp_all add: numerar_Cons numerar_Nil)

lemma numerar_valores:
  "\<forall>feat \<in> set feats. i < length (attributes feat) \<Longrightarrow>
     map (\<lambda>feat. attributes feat ! i) (numerar i k feats)
       = map (\<lambda>j. PyInt (int j + 1)) [k..<k + length feats]"
proof (induction feats arbitrary: k)
  case Nil
  then show ?case by (simp add: numerar_Nil)
next
  case (Cons feat feats)
  have "[k..<k + length (feat # feats)] = k # [Suc k..<Suc k + length feats]"
    by (simp add: upt_rec)
  then show ?case using Cons by (simp add: numerar_Cons)
qed

lemma numerar_outros:
  "j < length feats \<Longrightarrow> p \<noteq> i \<Longrightarrow>
     attributes (numerar i k feats ! j) ! p = attributes (feats ! j) ! p"
proof (induction feats arbitrary: k j)
  case Nil
  then show ?case by simp
next
  case (Cons feat feats)
  then show ?case by (cases j) (simp_all add: numerar_Cons)
qed

lemma numerar_numerar: "numerar i k (numerar i k feats) = numerar i k feats"
  by (induction feats arbitrary: k) (simp_all add: numerar_Cons numerar_Nil)

lemma numerar_distinct:
  assumes "\<forall>feat \<in> set feats. i < length (attributes feat)"
  shows "distinct (valores_normalizados i (numerar i k feats))"
proof -
  have "valores_normalizados i (numerar i k feats)
          = map normalizar (map (\<lambda>feat. attributes feat ! i) (numerar i k feats))"
    by (simp add: valores_normalizados_def)
  also have "\<dots> = map (\<lambda>j. PyInt (int j + 1)) [k..<k + length feats]"
    by (simp add: numerar_valores[OF assms])
  finally show ?thesis by (simp add: distinct_map inj_on_def)
qed

lemma numerar_sem_nulos:
  assumes "\<forall>feat \<in> set feats. i < length (attributes feat)"
  shows "PyNone \<notin> set (map (\<lambda>feat. attributes feat ! i) (numerar i k feats))"
  by (auto simp: numerar_valores[OF assms])

lemma lookupField_append:
  "lookupField (campos @ [campo]) n =
     (case lookupField campos n of
        Some i \<Rightarrow> Some i
      | None \<Rightarrow> if fname campo = n then Some (length campos) else None)"
  by (induction campos) (auto split: option.splits)

text \<open>The layer on which the loop of the edit block runs.\<close>

lemma edit_id_row_nr_Inr:
  assumes "edit_id_row_nr c n = (Inr u, c')"
  shows "\<exists>i c1. c1 = (if n \<notin> set (names (lfields c))
                       then addAttributes c \<lparr>fname = n, ftype = QVariantInt\<rparr> else c)
               \<and> lookupField (lfields c1) n = Some i
               \<and> (\<forall>feat \<in> set (getFeatures c1). i < length (attributes feat))
               \<and> c' = c1\<lparr>getFeatures := numerar i 0 (getFeatures c1)\<rparr>"
proof -
  define c1 where "c1 = (if n \<notin> set (names (lfields c))
                       then addAttributes c \<lparr>fname = n, ftype = QVariantInt\<rparr> else c)"
  have "lookupField (lfields c1) n \<noteq> None"
    by (simp add: c1_def addAttributes_def lookupField_None names_def)
  then obtain i where i: "lookupField (lfields c1) n = Some i" by auto
  from assms obtain feats where
    p: "preencher (lfields c1) n 0 (getFeatures c1) = Inr feats" and
    c': "c' = c1\<lparr>getFeatures := feats\<rparr>"
    unfolding edit_id_row_nr_def Let_def c1_def[symmetric]
    by (auto split: if_splits sum.splits)
  have idx: "\<forall>feat \<in> set (getFeatures c1). i < length (attributes feat)"
    using preencher_idx[OF i p] .
  have "feats = numerar i 0 (getFeatures c1)"
    using preencher_eq[OF i idx, of 0] p by simp
  then show ?thesis using i idx c' c1_def by blast
qed

lemma gerenciar_campo_auxiliar_Some:
  assumes "gerenciar_campo_auxiliar c = (Some n, c', msgs)"
  shows "n = ''id_row_nr'' \<and> n \<in> set (names (lfields c'))
       \<and> campo_e_unico c' n = Inr True \<and> possui_valores_nulos c' n = Inr False
       \<and> subsetString c' = subsetString c"
proof -
  from assms obtain u where e: "edit_id_row_nr c ''id_row_nr'' = (Inr u, c')" and n: "n = ''id_row_nr''"
    by (auto simp: gerenciar_campo_auxiliar_def Let_def split: if_splits prod.splits sum.splits)
  from edit_id_row_nr_Inr[OF e] obtain i c1 where
    c1: "c1 = (if ''id_row_nr'' \<notin> set (names (lfields c))
               then addAttributes c \<lparr>fname = ''id_row_nr'', ftype = QVariantInt\<rparr> else c)" and
    i: "lookupField (lfields c1) ''id_row_nr'' = Some i" and
    idx: "\<forall>feat \<in> set (getFeatures c1). i < length (attributes feat)" and
    c': "c' = c1\<lparr>getFeatures := numerar i 0 (getFeatures c1)\<rparr>"
    by blast
  have i': "lookupField (lfields c') ''id_row_nr'' = Some i" using i c' by simp
  have idx': "\<forall>feat \<in> set (getFeatures c'). i < length (attributes feat)"
    using numerar_idx[OF idx] c' by simp
  have u: "campo_e_unico c' ''id_row_nr'' = Inr True"
    using campo_e_unico_idx[OF i' idx'] numerar_distinct[OF idx, of 0] c' by simp
  have nn: "possui_valores_nulos c' ''id_row_nr'' = Inr False"
    using possui_valores_nulos_loop_eq[OF i' idx'] numerar_sem_nulos[OF idx, of 0] c'
    by (simp add: possui_valores_nulos_def)
  have s: "subsetString c' = subsetString c"
    using c' c1 by (simp add: addAttributes_def)
  show ?thesis using n u nn s campo_e_unico_True_names[OF u] by simp
qed

lemma gerenciar_campo_auxiliar_subset:
  "subsetString (fst (snd (gerenciar_campo_auxiliar c))) = subsetString c"
  by (auto simp: gerenciar_campo_auxiliar_def edit_id_row_nr_def Let_def addAttributes_def
      split: sum.splits prod.splits)

text \<open>
  C1. Whatever the layer, \<open>identificar_campo_filtro\<close> returns \<open>None\<close> or a name that,
  in the layer as the call leaves it, is a field of the schema, passes
  \<open>campo_e_unico\<close> and has no \<open>None\<close> value; this includes the auxiliary field
  \<open>id_row_nr\<close> just filled. It raises only when some record does not carry one value
  per field, or when the catalog of a database layer answers a non-zero number instead
  of a column name.
\<close>

theorem identificar_campo_filtro_unico:
  "case identificar_campo_filtro c of
     (Inl e, c', msgs) \<Rightarrow>
        \<not> wf_camada c
        \<or> (identificar_tipo_camada c = Database
            \<and> (\<exists>k. fst (obter_chave_primaria c) = PyInt k \<and> k \<noteq> 0))
   | (Inr None, c', msgs) \<Rightarrow> True
   | (Inr (Some n), c', msgs) \<Rightarrow>
        n \<in> set (names (lfields c')) \<and> campo_e_unico c' n = Inr True
        \<and> possui_valores_nulos c' n = Inr False"
proof -
  obtain r c' msgs where res: "identificar_campo_filtro c = (r, c', msgs)"
    by (cases "identificar_campo_filtro c") auto
  have some: "n \<in> set (names (lfields c')) \<and> campo_e_unico c' n = Inr True
                \<and> possui_valores_nulos c' n = Inr False" if "r = Inr (Some n)" for n
  proof -
    have good: "n \<in> set (names (lfields c)) \<and> campo_e_unico c n = Inr True
                \<and> possui_valores_nulos c n = Inr False"
      if "unico_e_sem_nulos c n = Inr True"
      using that campo_e_unico_True_names[of c n] by (simp add: unico_e_sem_nulos_True)
    show ?thesis
      using res \<open>r = Inr (Some n)\<close>
      unfolding identificar_campo_filtro_def Let_def
      by (auto split: if_splits prod.splits pyval.splits sum.splits bool.splits option.splits
          dest!: varrer_campos_Some varrer_prioridades_Some gerenciar_campo_auxiliar_Some
          simp: unico_e_sem_nulos_True campo_e_unico_True_names)
  qed
  have err: "\<not> wf_camada c
        \<or> (identificar_tipo_camada c = Database
            \<and> (\<exists>k. fst (obter_chave_primaria c) = PyInt k \<and> k \<noteq> 0))" if "r = Inl e" for e
  proof (rule ccontr)
    assume "\<not> ?thesis"
    then have wf: "wf_camada c" and
      nopk: "identificar_tipo_camada c = Database \<Longrightarrow>
               \<not> (\<exists>k. fst (obter_chave_primaria c) = PyInt k \<and> k \<noteq> 0)"
      by auto
    from varrer_prioridades_wf[OF wf, of prioridades] obtain rp where
      rp: "varrer_prioridades c prioridades = Inr rp" by blast
    show False
      using res \<open>r = Inl e\<close> nopk rp
      unfolding identificar_campo_filtro_def Let_def
      by (auto split: if_splits prod.splits pyval.splits sum.splits bool.splits option.splits
          simp: varrer_campos_wf[OF wf] unico_e_sem_nulos_wf[OF wf])
  qed
  show ?thesis
    using res some err by (cases r) (auto split: option.splits)
qed

section \<open>The sequence written by the auxiliary field\<close>

text \<open>
  On the example the five priority groups find nothing and the auxiliary field, already
  in the schema, is filled with 1 and 2 and returned.
\<close>

theorem identificar_campo_filtro_unico_witness:
  "wf_camada camada_texto
   \<and> identificar_campo_filtro camada_texto = (Inr (Some ''id_row_nr''), camada_texto_numerada, [])
   \<and> ''id_row_nr'' \<in> set (names (lfields camada_texto_numerada))
   \<and> campo_e_unico camada_texto_numerada ''id_row_nr'' = Inr True
   \<and> possui_valores_nulos camada_texto_numerada ''id_row_nr'' = Inr False"
proof -
  have wf: "wf_camada camada_texto" by code_simp
  have r: "identificar_campo_filtro camada_texto
             = (Inr (Some ''id_row_nr''), camada_texto_numerada, [])" by code_simp
  show ?thesis
    using identificar_campo_filtro_unico[of camada_texto] wf r by simp
qed

lemma identificar_tipo_camada_cong:
  "provider_name c' = provider_name c \<Longrightarrow> source c' = source c \<Longrightarrow>
     isTemporary c' = isTemporary c \<Longrightarrow>
     identificar_tipo_camada c' = identificar_tipo_camada c"
  by (simp add: identificar_tipo_camada_def)

lemma wf_addAttributes: "wf_camada c \<Longrightarrow> wf_camada (addAttributes c campo)"
  by (simp add: wf_camada_def addAttributes_def list_all_iff)

lemma wf_numerar:
  "wf_camada c \<Longrightarrow> wf_camada (c\<lparr>getFeatures := numerar i k (getFeatures c)\<rparr>)"
proof -
  assume wf: "wf_camada c"
  have "list_all (\<lambda>n. n = length (lfields c))
          (map (\<lambda>feat. length (attributes feat)) (numerar i k (getFeatures c)))"
    using wf by (simp add: numerar_lengths wf_camada_def list_all_iff)
  then show ?thesis by (simp add: wf_camada_def list_all_iff)
qed

lemma gerenciar_campo_auxiliar_eq:
  assumes "identificar_tipo_camada c \<notin> set [Wfs, Csv]" and "camada_editavel c"
    and "startEditing c"
    and "c1 = (if ''id_row_nr'' \<notin> set (names (lfields c))
               then addAttributes c \<lparr>fname = ''id_row_nr'', ftype = QVariantInt\<rparr> else c)"
    and "lookupField (lfields c1) ''id_row_nr'' = Some i"
    and "\<forall>feat \<in> set (getFeatures c1). i < length (attributes feat)"
  shows "gerenciar_campo_auxiliar c
           = (Some ''id_row_nr'', c1\<lparr>getFeatures := numerar i 0 (getFeatures c1)\<rparr>, [])"
proof -
  have p: "preencher (lfields c1) ''id_row_nr'' 0 (getFeatures c1)
             = Inr (numerar i 0 (getFeatures c1))"
    using preencher_eq[OF assms(5) assms(6)] .
  have "edit_id_row_nr c ''id_row_nr''
          = (Inr (), c1\<lparr>getFeatures := numerar i 0 (getFeatures c1)\<rparr>)"
    using p assms(3) unfolding edit_id_row_nr_def Let_def assms(4)[symmetric] by simp
  then show ?thesis
    using assms(1,2) by (simp add: gerenciar_campo_auxiliar_def)
qed

text \<open>
  C6, as the code has it. On an editable file, KML or temporary layer whose records carry
  one value per field and whose edit session opens, \<open>gerenciar_campo_auxiliar\<close> returns
  \<open>id_row_nr\<close> and leaves a layer in which that field holds 1, 2, ..., N in iteration
  order, whatever it held before. A missing field is appended to the schema as an
  integer field; a field already there keeps its place and its declared type. The other
  values and the record identifiers are untouched, and running the function again on the
  result changes nothing.
\<close>

theorem gerenciar_campo_auxiliar_sequencia:
  assumes "identificar_tipo_camada c \<in> {Kml, File, Temporary}" and "camada_editavel c"
    and "startEditing c" and "wf_camada c"
  shows "\<exists>c' i.
           gerenciar_campo_auxiliar c = (Some ''id_row_nr'', c', [])
         \<and> lfields c' = (if ''id_row_nr'' \<in> set (names (lfields c)) then lfields c
                          else lfields c @ [\<lparr>fname = ''id_row_nr'', ftype = QVariantInt\<rparr>])
         \<and> lookupField (lfields c') ''id_row_nr'' = Some i
         \<and> map (\<lambda>feat. attributes feat ! i) (getFeatures c')
             = map (\<lambda>j. PyInt (int j + 1)) [0..<length (getFeatures c)]
         \<and> map fid (getFeatures c') = map fid (getFeatures c)
         \<and> (\<forall>j<length (getFeatures c). \<forall>p<length (lfields c). p \<noteq> i \<longrightarrow>
               attributes (getFeatures c' ! j) ! p = attributes (getFeatures c ! j) ! p)
         \<and> wf_camada c'
         \<and> gerenciar_campo_auxiliar c' = (Some ''id_row_nr'', c', [])"
proof -
  define c1 where "c1 = (if ''id_row_nr'' \<notin> set (names (lfields c))
               then addAttributes c \<lparr>fname = ''id_row_nr'', ftype = QVariantInt\<rparr> else c)"
  have t: "identificar_tipo_camada c \<notin> set [Wfs, Csv]" using assms(1) by auto
  have wf1: "wf_camada c1" using assms(4) by (simp add: c1_def wf_addAttributes)
  have "lookupField (lfields c1) ''id_row_nr'' \<noteq> None"
    by (simp add: c1_def addAttributes_def lookupField_None names_def)
  then obtain i where i: "lookupField (lfields c1) ''id_row_nr'' = Some i" by auto
  have idx: "\<forall>feat \<in> set (getFeatures c1). i < length (attributes feat)"
    using wf_camada_idx[OF wf1 i] .
  define c' where "c' = c1\<lparr>getFeatures := numerar i 0 (getFeatures c1)\<rparr>"
  have g: "gerenciar_campo_auxiliar c = (Some ''id_row_nr'', c', [])"
    unfolding c'_def
    using gerenciar_campo_auxiliar_eq[OF t assms(2,3) c1_def i idx] .
  have f: "lfields c' = (if ''id_row_nr'' \<in> set (names (lfields c)) then lfields c
                          else lfields c @ [\<lparr>fname = ''id_row_nr'', ftype = QVariantInt\<rparr>])"
    by (simp add: c'_def c1_def addAttributes_def)
  have i': "lookupField (lfields c') ''id_row_nr'' = Some i" using i by (simp add: c'_def)
  have len1: "length (getFeatures c1) = length (getFeatures c)"
    by (simp add: c1_def addAttributes_def)
  have v: "map (\<lambda>feat. attributes feat ! i) (getFeatures c')
             = map (\<lambda>j. PyInt (int j + 1)) [0..<length (getFeatures c)]"
    using numerar_valores[OF idx, of 0] len1 by (simp add: c'_def)
  have fids: "map fid (getFeatures c') = map fid (getFeatures c)"
    by (simp add: c'_def numerar_fids c1_def addAttributes_def comp_def)
  have outros: "attributes (getFeatures c' ! j) ! p = attributes (getFeatures c ! j) ! p"
    if j: "j < length (getFeatures c)" and p: "p < length (lfields c)" and pi: "p \<noteq> i" for j p
  proof -
    have a: "attributes (getFeatures c' ! j) ! p = attributes (getFeatures c1 ! j) ! p"
      using numerar_outros[of j "getFeatures c1" p i 0] j pi len1 by (simp add: c'_def)
    have "length (attributes (getFeatures c ! j)) = length (lfields c)"
      using assms(4) j by (simp add: wf_camada_def list_all_length)
    then have "attributes (getFeatures c1 ! j) ! p = attributes (getFeatures c ! j) ! p"
      using j p by (simp add: c1_def addAttributes_def nth_append)
    then show ?thesis using a by simp
  qed
  have wf': "wf_camada c'" unfolding c'_def using wf_numerar[OF wf1] .
  have t': "identificar_tipo_camada c' \<notin> set [Wfs, Csv]"
    using t identificar_tipo_camada_cong[of c' c]
    by (simp add: c'_def c1_def addAttributes_def)
  have e': "camada_editavel c'" using assms(2)
    by (simp add: camada_editavel_def c'_def c1_def addAttributes_def)
  have s': "startEditing c'" using assms(3) by (simp add: c'_def c1_def addAttributes_def)
  have n': "c' = (if ''id_row_nr'' \<notin> set (names (lfields c'))
               then addAttributes c' \<lparr>fname = ''id_row_nr'', ftype = QVariantInt\<rparr> else c')"
    using i' lookupField_None[of "lfields c'" "''id_row_nr''"] by auto
  have idx': "\<forall>feat \<in> set (getFeatures c'). i < length (attributes feat)"
    using wf_camada_idx[OF wf' i'] .
  have again: "gerenciar_campo_auxiliar c' = (Some ''id_row_nr'', c', [])"
    using gerenciar_campo_auxiliar_eq[OF t' e' s' n' i' idx']
    by (simp add: c'_def numerar_numerar)
  show ?thesis
    using g f i' v fids outros wf' again by blast
qed

theorem gerenciar_campo_auxiliar_sequencia_witness:
  "identificar_tipo_camada camada_sem_chave \<in> {Kml, File, Temporary}
   \<and> wf_camada camada_sem_chave
   \<and> gerenciar_campo_auxiliar camada_sem_chave =
       (Some ''id_row_nr'',
        camada_sem_chave
          \<lparr>lfields := [\<lparr>fname = ''obs'', ftype = QVariantString\<rparr>,
                       \<lparr>fname = ''id_row_nr'', ftype = QVariantInt\<rparr>],
           getFeatures := [\<lparr>fid = 7, attributes = [PyStr ''x'', PyInt 1]\<rparr>,
                           \<lparr>fid = 9, attributes = [PyStr ''x'', PyInt 2]\<rparr>]\<rparr>,
        [])"
proof -
  have t: "identificar_tipo_camada camada_sem_chave \<in> {Kml, File, Temporary}" by code_simp
  have e: "camada_editavel camada_sem_chave" by code_simp
  have s: "startEditing camada_sem_chave" by code_simp
  have wf: "wf_camada camada_sem_chave" by code_simp
  have r: "gerenciar_campo_auxiliar camada_sem_chave =
       (Some ''id_row_nr'',
        camada_sem_chave
          \<lparr>lfields := [\<lparr>fname = ''obs'', ftype = QVariantString\<rparr>,
                       \<lparr>fname = ''id_row_nr'', ftype = QVariantInt\<rparr>],
           getFeatures := [\<lparr>fid = 7, attributes = [PyStr ''x'', PyInt 1]\<rparr>,
                           \<lparr>fid = 9, attributes = [PyStr ''x'', PyInt 2]\<rparr>]\<rparr>,
        [])" by code_simp
  from gerenciar_campo_auxiliar_sequencia[OF t e s wf]
  have "\<exists>c'. gerenciar_campo_auxiliar camada_sem_chave = (Some ''id_row_nr'', c', [])"
    by blast
  then show ?thesis using t wf r by simp
qed

text \<open>
  A text field named \<open>id_row_nr\<close> is renumbered, not recreated: after the call it is
  still declared as a string field.
\<close>

theorem gerenciar_campo_auxiliar_tipo_counterexample:
  "gerenciar_campo_auxiliar camada_texto = (Some ''id_row_nr'', camada_texto_numerada, [])
   \<and> field_type (lfields camada_texto_numerada) ''id_row_nr'' = Inr QVariantString
   \<and> lfields camada_texto_numerada = lfields camada_texto"
  by code_simp

section \<open>Priority groups and the cleared filter\<close>

lemma varrer_prioridades_Cons_wf:
  assumes "wf_camada c"
  shows "varrer_prioridades c (g # gs) =
           (case find (qualifica c g) (lfields c) of
              Some campo \<Rightarrow> Inr (Some (fname campo))
            | None \<Rightarrow> varrer_prioridades c gs)"
  by (simp add: varrer_grupo_wf[OF assms] split: option.splits)

lemma find_SomeD: "find P xs = Some x \<Longrightarrow> x \<in> set xs \<and> P x"
  by (induction xs) (auto split: if_splits)

text \<open>
  C7, as the code has it. On an editable file, KML or temporary layer whose records carry
  one value per field, if some field qualifies in the second priority group then the
  selector returns a field of the schema that qualifies in the first or in the second
  group: the first field, in schema order, that qualifies in the first group if there is
  one, and otherwise the first that qualifies in the second group. A field that
  qualifies only in the fourth group is therefore never returned, wherever it stands in
  the schema.
\<close>

theorem preferencia_entre_grupos:
  assumes "wf_camada c" and "identificar_tipo_camada c \<in> {Kml, File, Temporary}"
    and "camada_editavel c"
    and "campo2 \<in> set (lfields c)" and "qualifica c (prioridades ! 1) campo2"
  shows "\<exists>campo \<in> set (lfields c).
           identificar_campo_filtro c = (Inr (Some (fname campo)), c, [])
         \<and> (case find (qualifica c (prioridades ! 0)) (lfields c) of
              Some campo1 \<Rightarrow> campo = campo1
            | None \<Rightarrow> find (qualifica c (prioridades ! 1)) (lfields c) = Some campo)
         \<and> (qualifica c (prioridades ! 0) campo \<or> qualifica c (prioridades ! 1) campo)"
proof -
  define g0 where "g0 = prioridades ! 0"
  define g1 where "g1 = prioridades ! 1"
  obtain gs where p: "prioridades = g0 # g1 # gs" by (simp add: prioridades_def g0_def g1_def)
  note vp = varrer_prioridades_Cons_wf[OF assms(1)]
  have t: "identificar_tipo_camada c \<noteq> Database" "identificar_tipo_camada c \<notin> set [Wfs, Csv]"
    "identificar_tipo_camada c \<in> set [Kml, File, Temporary]"
    using assms(2) by auto
  have sel: "identificar_campo_filtro c = (Inr (Some n), c, [])"
    if "varrer_prioridades c prioridades = Inr (Some n)" for n
    using that t assms(3) by (simp add: identificar_campo_filtro_def)
  have "find (qualifica c g1) (lfields c) \<noteq> None"
    using assms(4,5) by (auto simp: find_None_iff g1_def)
  then obtain f2 where f2: "find (qualifica c g1) (lfields c) = Some f2" by auto
  show ?thesis
  proof (cases "find (qualifica c g0) (lfields c)")
    case None
    have "varrer_prioridades c prioridades = Inr (Some (fname f2))"
      unfolding p by (simp only: vp None f2 option.case)
    from sel[OF this] f2 None find_SomeD[OF f2] show ?thesis
      unfolding g0_def g1_def by (intro bexI[of _ f2]) simp_all
  next
    case (Some f1)
    have "varrer_prioridades c prioridades = Inr (Some (fname f1))"
      unfolding p by (simp only: vp Some option.case)
    from sel[OF this] Some find_SomeD[OF Some] show ?thesis
      unfolding g0_def g1_def by (intro bexI[of _ f1]) simp_all
  qed
qed

text \<open>
  In the example \<open>x\<close>, which qualifies only in the fourth group, precedes \<open>cod\<close> in
  the schema, and \<open>cod\<close> is returned.
\<close>

theorem preferencia_entre_grupos_witness:
  "qualifica camada_x_cod (prioridades ! 1) \<lparr>fname = ''cod'', ftype = QVariantInt\<rparr>
   \<and> qualifica camada_x_cod (prioridades ! 3) \<lparr>fname = ''x'', ftype = QVariantInt\<rparr>
   \<and> identificar_campo_filtro camada_x_cod = (Inr (Some ''cod''), camada_x_cod, [])"
proof -
  have wf: "wf_camada camada_x_cod" by code_simp
  have t: "identificar_tipo_camada camada_x_cod \<in> {Kml, File, Temporary}" by code_simp
  have e: "camada_editavel camada_x_cod" by code_simp
  have m: "\<lparr>fname = ''cod'', ftype = QVariantInt\<rparr> \<in> set (lfields camada_x_cod)" by code_simp
  have q: "qualifica camada_x_cod (prioridades ! 1) \<lparr>fname = ''cod'', ftype = QVariantInt\<rparr>"
    by code_simp
  have q4: "qualifica camada_x_cod (prioridades ! 3) \<lparr>fname = ''x'', ftype = QVariantInt\<rparr>"
    by code_simp
  have f0: "find (qualifica camada_x_cod (prioridades ! 0)) (lfields camada_x_cod) = None"
    by code_simp
  have f1: "find (qualifica camada_x_cod (prioridades ! 1)) (lfields camada_x_cod)
              = Some \<lparr>fname = ''cod'', ftype = QVariantInt\<rparr>"
    by code_simp
  from preferencia_entre_grupos[OF wf t e m q] f0 f1
  have "identificar_campo_filtro camada_x_cod = (Inr (Some ''cod''), camada_x_cod, [])"
    by auto
  then show ?thesis using q q4 by simp
qed

text \<open>
  With a long-integer field \<open>id\<close> between them, neither the field \<open>cod\<close> of the second
  group nor the field \<open>x\<close> of the fourth is returned: \<open>id\<close> qualifies in the first
  group, and not in the second, whose only type is integer.
\<close>

theorem preferencia_tier2_counterexample:
  "qualifica camada_tres (prioridades ! 1) \<lparr>fname = ''cod'', ftype = QVariantInt\<rparr>
   \<and> \<not> qualifica camada_tres (prioridades ! 1) \<lparr>fname = ''id'', ftype = QVariantLongLong\<rparr>
   \<and> qualifica camada_tres (prioridades ! 3) \<lparr>fname = ''x'', ftype = QVariantInt\<rparr>
   \<and> \<not> qualifica camada_tres (prioridades ! 0) \<lparr>fname = ''x'', ftype = QVariantInt\<rparr>
   \<and> \<not> qualifica camada_tres (prioridades ! 1) \<lparr>fname = ''x'', ftype = QVariantInt\<rparr>
   \<and> \<not> qualifica camada_tres (prioridades ! 2) \<lparr>fname = ''x'', ftype = QVariantInt\<rparr>
   \<and> identificar_campo_filtro camada_tres = (Inr (Some ''id''), camada_tres, [])"
  by code_simp

lemma identificar_campo_filtro_subset:
  "subsetString (fst (snd (identificar_campo_filtro c))) = subsetString c"
proof -
  obtain r c' msgs where g: "gerenciar_campo_auxiliar c = (r, c', msgs)"
    by (cases "gerenciar_campo_auxiliar c") auto
  then have "subsetString c' = subsetString c"
    using gerenciar_campo_auxiliar_subset[of c] by simp
  then show ?thesis
    using g unfolding identificar_campo_filtro_def Let_def
    by (auto split: prod.splits pyval.splits sum.splits bool.splits option.splits)
qed

text \<open>
  C10. Once the active layer is a valid vector layer with a non-empty selection and the
  WFS confirmation has not been declined, \<open>identificar_campo_filtro\<close> runs on the layer
  with its subset string set to the empty string and leaves it empty; when it returns
  \<open>None\<close>, \<open>executar_filtragem\<close> reports that no field with unique values was found
  and ends with that layer, whose subset string is empty whatever it was before.
\<close>

theorem filtro_limpo_antes_da_selecao:
  assumes "activeLayer i = Vetorial c" and "isValid c" and "selectedFeatureIds c \<noteq> []"
    and "\<not> (identificar_tipo_camada c = Wfs \<and> 20 < length (selectedFeatureIds c)
            \<and> resposta_usuario i = QMessageBoxNo)"
    and "identificar_campo_filtro (setSubsetString c []) = (r, c2, msgs)"
  shows "subsetString (setSubsetString c []) = []
       \<and> subsetString c2 = []
       \<and> (r = Inr None \<longrightarrow>
            executar_filtragem i =
              (Vetorial c2,
               (if identificar_tipo_camada c = Wfs \<and> 20 < length (selectedFeatureIds c)
                then [MessageBoxWarning (length (selectedFeatureIds c))] else [])
               @ msgs @ [PushMessage NoUniqueField Critical 3]))"
proof -
  have a: "subsetString (setSubsetString c []) = []" by (simp add: setSubsetString_def)
  have b: "subsetString c2 = []"
    using identificar_campo_filtro_subset[of "setSubsetString c []"] assms(5) a by simp
  have t: "executar_filtragem_try c = (Inr (), c2, msgs @ [PushMessage NoUniqueField Critical 3])"
    if "r = Inr None"
    using assms(5) that by (simp add: executar_filtragem_try_def exibir_mensagem_def)
  have d: "executar_filtragem i =
              (Vetorial c2,
               (if identificar_tipo_camada c = Wfs \<and> 20 < length (selectedFeatureIds c)
                then [MessageBoxWarning (length (selectedFeatureIds c))] else [])
               @ msgs @ [PushMessage NoUniqueField Critical 3])"
    if "r = Inr None"
    using assms(1-4) t[OF that] by (auto simp: executar_filtragem_def Let_def)
  show ?thesis using a b d by blast
qed

theorem filtro_limpo_antes_da_selecao_witness:
  "subsetString camada_somente_leitura = ''obs = 1''
   \<and> executar_filtragem
        \<lparr>activeLayer = Vetorial camada_somente_leitura, resposta_usuario = QMessageBoxYes\<rparr>
       = (Vetorial (camada_somente_leitura\<lparr>subsetString := []\<rparr>),
          [PushMessage NoUniqueField Critical 3])"
proof -
  let ?i = "\<lparr>activeLayer = Vetorial camada_somente_leitura, resposta_usuario = QMessageBoxYes\<rparr>"
  have v: "isValid camada_somente_leitura" by code_simp
  have s: "selectedFeatureIds camada_somente_leitura \<noteq> []" by code_simp
  have w: "\<not> (identificar_tipo_camada camada_somente_leitura = Wfs
               \<and> 20 < length (selectedFeatureIds camada_somente_leitura)
               \<and> resposta_usuario ?i = QMessageBoxNo)" by simp
  have nw: "identificar_tipo_camada camada_somente_leitura \<noteq> Wfs" by code_simp
  have r: "identificar_campo_filtro (setSubsetString camada_somente_leitura [])
             = (Inr None, camada_somente_leitura\<lparr>subsetString := []\<rparr>, [])" by code_simp
  have o: "subsetString camada_somente_leitura = ''obs = 1''" by code_simp
  have a: "activeLayer ?i = Vetorial camada_somente_leitura" by simp
  show ?thesis
    using filtro_limpo_antes_da_selecao[OF a v s w r] nw o by simp
qed

end
